theory Spec2Isabelle
  imports Main "HOL-Library.Sublist" "HOL-Library.AList" "HOL-Library.Multiset"
begin

section \<open>Exceptions, log lines and observable effects\<close>

text \<open>
  The scraper \<^verbatim>\<open>CoachScraper\<close> (file \<^verbatim>\<open>src/CoachScraper.py\<close>) is a Python class with four
  methods of interest: \<^verbatim>\<open>fetch_html\<close>, \<^verbatim>\<open>scrape_generic_table\<close>, \<^verbatim>\<open>parse_site\<close> and
  \<^verbatim>\<open>scrape_all\<close>. Each is embedded as a function that returns, next to its value, the
  list of effects it performed in order: the GET requests sent, the calls of
  \<^verbatim>\<open>time.sleep\<close> and the lines printed. An exception that leaves a method is the \<open>Inl\<close>
  of a sum.
\<close>

datatype error = KeyError | IndexError | ValueError | TypeError | SelectorError

text \<open>The lines the code prints, one constructor per \<^verbatim>\<open>print\<close> call of the source.\<close>

datatype message =
    InvalidURL
  | PermanentError string int
  | TemporaryError string int int
  | NetworkError string int
  | MaxRetries int string
  | NeedHandler string
  | TableNotFound string int
  | Completed string
  | NoData string
  | ErrorScraping string error
  | Done nat

datatype event = Get string | Sleep int | Print message

section \<open>The fetcher\<close>

text \<open>
  What \<^verbatim>\<open>requests.get(url, headers=..., timeout=10)\<close> does is not decided by the program:
  it either returns a response (status code and body) or raises a
  \<^verbatim>\<open>requests.RequestException\<close> (time-out, DNS failure, connection reset, malformed URL).
  The network is a parameter: the outcome of the request number \<open>attempt\<close> (counted from
  0 inside one call of \<^verbatim>\<open>fetch_html\<close>) sent to \<open>url\<close>.
\<close>

datatype outcome = Response int string | RequestException

type_synonym network = "string \<Rightarrow> nat \<Rightarrow> outcome"

text \<open>
  \<^verbatim>\<open>resp.raise_for_status()\<close> raises \<^verbatim>\<open>HTTPError\<close> for the status codes 400 to 599
  (the source's comment: "Raise exception for bad status codes (4xx or 5xx)") and returns
  for every other code.
\<close>

definition raise_for_status :: "int \<Rightarrow> bool" where
  "raise_for_status sc \<longleftrightarrow> 400 \<le> sc \<and> sc < 600"

text \<open>
  One pass through the \<^verbatim>\<open>try\<close> statement of the loop body (lines 46 to 68). \<open>Some s\<close>:
  the body executed \<^verbatim>\<open>return s\<close>; \<open>None\<close>: an exception was handled and control falls
  through to line 71.
\<close>

definition attempt_request :: "network \<Rightarrow> string \<Rightarrow> int \<Rightarrow> nat \<Rightarrow> string option \<times> event list" where
  "attempt_request net url delay_seconds attempt =
     (case net url attempt of
        Response sc body \<Rightarrow>
          if raise_for_status sc then
            if 400 \<le> sc \<and> sc < 500 then
              (Some '''', [Get url, Print (PermanentError url sc)])
            else
              (None, [Get url, Print (TemporaryError url sc delay_seconds)])
          else (Some body, [Get url])
      | RequestException \<Rightarrow>
          (None, [Get url, Print (NetworkError url delay_seconds)]))"

text \<open>
  The loop \<^verbatim>\<open>for attempt in range(max_retries)\<close>, entered at \<open>attempt\<close>.
  \<^verbatim>\<open>time.sleep\<close> raises \<^verbatim>\<open>ValueError\<close> on a negative argument; the call is outside the
  \<^verbatim>\<open>try\<close>, so that exception leaves \<^verbatim>\<open>fetch_html\<close>.
\<close>

function fetch_attempts ::
  "network \<Rightarrow> string \<Rightarrow> int \<Rightarrow> int \<Rightarrow> nat \<Rightarrow> (error + string) \<times> event list" where
  "fetch_attempts net url max_retries delay_seconds attempt =
     (if int attempt < max_retries then
        (case attempt_request net url delay_seconds attempt of
           (Some s, evs) \<Rightarrow> (Inr s, evs)
         | (None, evs) \<Rightarrow>
             if int attempt < max_retries - 1 then
               if delay_seconds < 0 then (Inl ValueError, evs)
               else
                 (case fetch_attempts net url max_retries delay_seconds (Suc attempt) of
                    (r, evs') \<Rightarrow> (r, evs @ Sleep delay_seconds # evs'))
             else (Inr '''', evs @ [Print (MaxRetries max_retries url)]))
      else (Inr '''', []))"
  by pat_completeness auto
termination
  by (relation "measure (\<lambda>(net, url, max_retries, delay_seconds, attempt).
        nat (max_retries - int attempt))") auto

declare fetch_attempts.simps [simp del]

definition fetch_html :: "network \<Rightarrow> string \<Rightarrow> int \<Rightarrow> int \<Rightarrow> (error + string) \<times> event list" where
  "fetch_html net url max_retries delay_seconds =
     (if url = [] then (Inr '''', [Print InvalidURL])
      else fetch_attempts net url max_retries delay_seconds 0)"

section \<open>Python string operations\<close>

text \<open>
  Strings are lists of the 8-bit characters of HOL, read as the code points U+0000 to
  U+00FF. \<^verbatim>\<open>str.strip()\<close> removes the characters for which \<^verbatim>\<open>str.isspace\<close> holds from
  both ends; in this range they are U+0009 to U+000D, U+001C to U+0020, U+0085 and U+00A0.
\<close>

definition is_space :: "char \<Rightarrow> bool" where
  "is_space c \<longleftrightarrow>
     (let n = (of_char c :: nat)
      in (9 \<le> n \<and> n \<le> 13) \<or> (28 \<le> n \<and> n \<le> 32) \<or> n = 133 \<or> n = 160)"

definition py_strip :: "string \<Rightarrow> string" where
  "py_strip s = rev (dropWhile is_space (rev (dropWhile is_space s)))"

text \<open>
  \<^verbatim>\<open>s.replace(old, new)\<close>: scanning from the left, every occurrence of \<open>old\<close> that does
  not overlap an earlier one is replaced. (For an empty \<open>old\<close>, Python puts \<open>new\<close>
  before every character and at the end.)
\<close>

function py_replace :: "string \<Rightarrow> string \<Rightarrow> string \<Rightarrow> string" where
  "py_replace old new [] = (if old = [] then new else [])"
| "py_replace old new (c # cs) =
     (if old = [] then new @ c # py_replace old new cs
      else if prefix old (c # cs) then new @ py_replace old new (drop (length old) (c # cs))
      else c # py_replace old new cs)"
  by pat_completeness auto
termination
  by (relation "measure (\<lambda>(old, new, s). length s)") auto

text \<open>
  \<^verbatim>\<open>str.lower()\<close> and \<^verbatim>\<open>str.capitalize()\<close> on this range. Lower-casing maps A to Z and
  U+00C0 to U+00DE (but the sign U+00D7) 32 places up. Upper-casing maps a to z and
  U+00E0 to U+00FE (but the sign U+00F7) 32 places down; the three letters U+00B5, U+00DF
  and U+00FF, whose capitals lie outside the range, are left as they are.
\<close>

definition lower_char :: "char \<Rightarrow> char" where
  "lower_char c =
     (let n = (of_char c :: nat)
      in if (65 \<le> n \<and> n \<le> 90) \<or> (192 \<le> n \<and> n \<le> 222 \<and> n \<noteq> 215)
         then char_of (n + 32) else c)"

definition upper_char :: "char \<Rightarrow> char" where
  "upper_char c =
     (let n = (of_char c :: nat)
      in if (97 \<le> n \<and> n \<le> 122) \<or> (224 \<le> n \<and> n \<le> 254 \<and> n \<noteq> 247)
         then char_of (n - 32) else c)"

definition py_lower :: "string \<Rightarrow> string" where
  "py_lower s = map lower_char s"

definition py_capitalize :: "string \<Rightarrow> string" where
  "py_capitalize s = (case s of [] \<Rightarrow> [] | c # cs \<Rightarrow> upper_char c # map lower_char cs)"

definition endswith :: "string \<Rightarrow> string \<Rightarrow> bool" where
  "endswith s suf \<longleftrightarrow> suffix suf s"

section \<open>The page and the selector engine\<close>

text \<open>
  BeautifulSoup and its selector engine are libraries, so the model takes them as a
  parameter: a record of the operations the code calls on a page of node type \<open>'n\<close>.
  \<^item> \<open>parse_html\<close>: \<^verbatim>\<open>BeautifulSoup(html, "html.parser")\<close>;
  \<^item> \<open>selector_ok\<close>: whether the engine can compile a selector (it raises on one it
    cannot);
  \<^item> \<open>css_select\<close>: the elements under a node that match a compiled selector, in
    document order;
  \<^item> \<open>get_attr\<close>: \<^verbatim>\<open>tag.get(name)\<close>, \<open>None\<close> for an attribute the tag lacks;
  \<^item> \<open>get_text\<close>: \<^verbatim>\<open>tag.get_text(strip=True)\<close>.
\<close>

record 'n dom =
  parse_html :: "string \<Rightarrow> 'n"
  selector_ok :: "string \<Rightarrow> bool"
  css_select :: "string \<Rightarrow> 'n \<Rightarrow> 'n list"
  get_attr :: "'n \<Rightarrow> string \<Rightarrow> string option"
  get_text :: "'n \<Rightarrow> string"

text \<open>\<^verbatim>\<open>node.select(selector)\<close>.\<close>

definition select :: "'n dom \<Rightarrow> string \<Rightarrow> 'n \<Rightarrow> error + 'n list" where
  "select lib selector node =
     (if selector_ok lib selector then Inr (css_select lib selector node)
      else Inl SelectorError)"

text \<open>
  \<^verbatim>\<open>node.select_one(selector)\<close>: the first match or \<^verbatim>\<open>None\<close>. The selector is \<^verbatim>\<open>None\<close>
  when a structured descriptor has no \<^verbatim>\<open>selector\<close> key; the engine raises on it.
\<close>

definition select_one :: "'n dom \<Rightarrow> string option \<Rightarrow> 'n \<Rightarrow> error + 'n option" where
  "select_one lib selector node =
     (case selector of
        None \<Rightarrow> Inl SelectorError
      | Some s \<Rightarrow>
          (case select lib s node of
             Inl e \<Rightarrow> Inl e
           | Inr [] \<Rightarrow> Inr None
           | Inr (tag # _) \<Rightarrow> Inr (Some tag)))"

section \<open>Configuration\<close>

text \<open>
  The configuration is what \<^verbatim>\<open>yaml.safe_load\<close> returns: a dict from school names to site
  dicts. A field of \<^verbatim>\<open>field_selectors\<close> is a plain selector string or a dict read with
  \<^verbatim>\<open>.get('selector')\<close> and \<^verbatim>\<open>.get('attribute')\<close>. A table block is a dict; the keys the
  code reads with \<^verbatim>\<open>config[...]\<close> raise \<^verbatim>\<open>KeyError\<close> when absent (\<open>None\<close> here),
  \<^verbatim>\<open>wrapper_index\<close> is read with \<^verbatim>\<open>.get\<close> and a default. Dicts keep insertion order, so
  they are association lists. The values are typed: a selector, an attribute name and
  the URL are strings, the index is an integer, an entry of a site dict is a string or a
  table block.
\<close>

datatype field_config = Selector string | Descriptor "string option" "string option"

record table_config =
  table_container_selector :: "string option"
  wrapper_index :: "int option"
  row_selector :: "string option"
  field_selectors :: "(string \<times> field_config) list option"

datatype config_value = Str string | Block table_config

type_synonym site_config = "(string \<times> config_value) list"

section \<open>The record extractor\<close>

text \<open>A record (\<^verbatim>\<open>member\<close>) is a dict from field names to a string or \<^verbatim>\<open>None\<close>.\<close>

type_synonym member = "(string \<times> string option) list"

text \<open>
  Line 128, \<^verbatim>\<open>all_tables[table_index]\<close>: Python reads an index below zero from the
  end of the list and raises \<^verbatim>\<open>IndexError\<close> outside \<open>- len\<close> to \<open>len - 1\<close>.
\<close>

definition list_index :: "'a list \<Rightarrow> int \<Rightarrow> error + 'a" where
  "list_index xs i =
     (if 0 \<le> i \<and> i < int (length xs) then Inr (xs ! nat i)
      else if i < 0 \<and> - int (length xs) \<le> i then Inr (xs ! (length xs - nat (- i)))
      else Inl IndexError)"

text \<open>
  Lines 141 to 148: a descriptor dict gives the selector and the attribute name (either
  may be missing: \<^verbatim>\<open>.get\<close>), a plain string is the selector.
\<close>

definition selector_string :: "field_config \<Rightarrow> string option" where
  "selector_string fc = (case fc of Selector s \<Rightarrow> Some s | Descriptor s a \<Rightarrow> s)"

definition attribute_name :: "field_config \<Rightarrow> string option" where
  "attribute_name fc = (case fc of Selector s \<Rightarrow> None | Descriptor s a \<Rightarrow> a)"

text \<open>
  Lines 151 to 166: the value of one field in one row. A tag is always true in a
  condition, so \<^verbatim>\<open>if tag\<close> asks whether there is a match; \<^verbatim>\<open>if attribute_name\<close> asks for
  a name that is neither \<^verbatim>\<open>None\<close> nor empty.
\<close>

definition field_value :: "'n dom \<Rightarrow> 'n \<Rightarrow> string \<Rightarrow> field_config \<Rightarrow> error + string option" where
  "field_value lib row field_name fc =
     (case select_one lib (selector_string fc) row of
        Inl e \<Rightarrow> Inl e
      | Inr None \<Rightarrow> Inr None
      | Inr (Some tag) \<Rightarrow>
          if attribute_name fc \<noteq> None \<and> attribute_name fc \<noteq> Some [] then
            Inr (get_attr lib tag (the (attribute_name fc)))
          else if field_name = ''email'' \<and> get_attr lib tag ''href'' \<noteq> None then
            Inr (Some (py_strip (py_replace ''mailto:'' '''' (the (get_attr lib tag ''href'')))))
          else
            Inr (Some (get_text lib tag)))"

text \<open>Lines 137 to 168: the loop over the fields, filling the dict \<^verbatim>\<open>member\<close>.\<close>

fun scrape_fields ::
  "'n dom \<Rightarrow> 'n \<Rightarrow> (string \<times> field_config) list \<Rightarrow> member \<Rightarrow> error + member" where
  "scrape_fields lib row [] member = Inr member"
| "scrape_fields lib row ((field_name, fc) # fs) member =
     (case field_value lib row field_name fc of
        Inl e \<Rightarrow> Inl e
      | Inr v \<Rightarrow> scrape_fields lib row fs (AList.update (py_lower field_name) v member))"

text \<open>
  Lines 134 to 170: the loop over the rows. \<^verbatim>\<open>config['field_selectors']\<close> is evaluated in
  every iteration, so a block without that key raises only when there is a row.
\<close>

fun scrape_members :: "'n dom \<Rightarrow> table_config \<Rightarrow> 'n list \<Rightarrow> error + member list" where
  "scrape_members lib config [] = Inr []"
| "scrape_members lib config (row # rows) =
     (case field_selectors config of
        None \<Rightarrow> Inl KeyError
      | Some fs \<Rightarrow>
          (case scrape_fields lib row fs [] of
             Inl e \<Rightarrow> Inl e
           | Inr m \<Rightarrow>
               (case scrape_members lib config rows of
                  Inl e \<Rightarrow> Inl e
                | Inr staff_data \<Rightarrow> Inr (m # staff_data))))"

text \<open>Lines 131 to 172: what is done with the chosen container.\<close>

definition scrape_rows :: "'n dom \<Rightarrow> table_config \<Rightarrow> 'n \<Rightarrow> error + member list" where
  "scrape_rows lib config table =
     (case row_selector config of
        None \<Rightarrow> Inl KeyError
      | Some rs \<Rightarrow>
          (case select lib rs table of
             Inl e \<Rightarrow> Inl e
           | Inr all_staff_rows \<Rightarrow> scrape_members lib config all_staff_rows))"

text \<open>Line 121: \<^verbatim>\<open>config.get('wrapper_index', 0)\<close>.\<close>

definition table_index :: "table_config \<Rightarrow> int" where
  "table_index config = (case wrapper_index config of None \<Rightarrow> 0 | Some i \<Rightarrow> i)"

definition scrape_generic_table ::
  "'n dom \<Rightarrow> 'n \<Rightarrow> table_config \<Rightarrow> (error + member list) \<times> event list" where
  "scrape_generic_table lib soup config =
     (case table_container_selector config of
        None \<Rightarrow> (Inl KeyError, [])
      | Some sel \<Rightarrow>
          (case select lib sel soup of
             Inl e \<Rightarrow> (Inl e, [])
           | Inr all_tables \<Rightarrow>
               if all_tables = [] \<or> int (length all_tables) \<le> table_index config
               then (Inr [], [Print (TableNotFound sel (table_index config))])
               else (case list_index all_tables (table_index config) of
                       Inl e \<Rightarrow> (Inl e, [])
                     | Inr table \<Rightarrow> (scrape_rows lib config table, []))))"

section \<open>The site parser\<close>

text \<open>
  A \<^verbatim>\<open>DataFrame\<close> is modelled by its rows, each a dict from column names to cells;
  \<^verbatim>\<open>pd.DataFrame()\<close> and \<^verbatim>\<open>pd.DataFrame([])\<close> have no rows. The row labels are not part
  of the model: \<^verbatim>\<open>reset_index().drop(columns='index')\<close> renumbers them and leaves the
  cells alone, as long as no field is itself named \<^verbatim>\<open>index\<close> (pandas would then drop that
  field's column); such a block is not modelled.
\<close>

type_synonym dataframe = "member list"

text \<open>
  \<^verbatim>\<open>config.get("url")\<close>: \<^verbatim>\<open>None\<close> for a missing key, which \<^verbatim>\<open>fetch_html\<close> treats like the
  empty string (\<^verbatim>\<open>if not url\<close>). The value under \<^verbatim>\<open>url\<close> is a string; a dict there is not
  modelled.
\<close>

definition config_url :: "site_config \<Rightarrow> string" where
  "config_url config = (case map_of config ''url'' of Some (Str u) \<Rightarrow> u | _ \<Rightarrow> [])"

text \<open>
  Lines 94 to 99: the loop over \<^verbatim>\<open>config.items()\<close>. Indexing a string with
  \<^verbatim>\<open>'table_container_selector'\<close> raises \<^verbatim>\<open>TypeError\<close>. The result is the list
  \<^verbatim>\<open>staff_data\<close>, one entry per key that ends in \<^verbatim>\<open>_TABLE\<close>.
\<close>

fun scrape_tables ::
  "'n dom \<Rightarrow> 'n \<Rightarrow> site_config \<Rightarrow> (error + member list list) \<times> event list" where
  "scrape_tables lib soup [] = (Inr [], [])"
| "scrape_tables lib soup ((table_key, v) # items) =
     (if endswith table_key ''_TABLE'' then
        (case v of
           Str _ \<Rightarrow> (Inl TypeError, [])
         | Block config \<Rightarrow>
             (case scrape_generic_table lib soup config of
                (Inl e, evs) \<Rightarrow> (Inl e, evs)
              | (Inr data, evs) \<Rightarrow>
                  (let staff_type = py_capitalize (take (length table_key - 6) table_key);
                       data' = map (AList.update ''staff_type'' (Some staff_type)) data
                   in case scrape_tables lib soup items of
                        (Inl e, evs') \<Rightarrow> (Inl e, evs @ evs')
                      | (Inr staff_data, evs') \<Rightarrow> (Inr (data' # staff_data), evs @ evs'))))
      else scrape_tables lib soup items)"

text \<open>
  Lines 101 to 111: every frame gets the column \<^verbatim>\<open>school\<close>; more than one frame is
  concatenated, otherwise \<^verbatim>\<open>staff_data[0]\<close> is returned, which raises \<^verbatim>\<open>IndexError\<close> on the
  empty list.
\<close>

definition merge_frames :: "string \<Rightarrow> member list list \<Rightarrow> error + dataframe" where
  "merge_frames school staff_data =
     (let frames = map (map (AList.update ''school'' (Some school))) staff_data
      in if length frames > 1 then Inr (concat frames)
         else (case frames of [] \<Rightarrow> Inl IndexError | df # _ \<Rightarrow> Inr df))"

text \<open>\<^verbatim>\<open>parse_site\<close> calls \<^verbatim>\<open>fetch_html\<close> with its defaults: 3 attempts, 5 seconds.\<close>

definition parse_site ::
  "'n dom \<Rightarrow> network \<Rightarrow> string \<Rightarrow> site_config \<Rightarrow> (error + dataframe) \<times> event list" where
  "parse_site lib net school config =
     (if ''handler'' \<in> set (map fst config) then (Inr [], [Print (NeedHandler school)])
      else
        (case fetch_html net (config_url config) 3 5 of
           (Inl e, evs) \<Rightarrow> (Inl e, evs)
         | (Inr html, evs) \<Rightarrow>
             if html = [] then (Inr [], evs)
             else
               (case scrape_tables lib (parse_html lib html) config of
                  (Inl e, evs') \<Rightarrow> (Inl e, evs @ evs')
                | (Inr staff_data, evs') \<Rightarrow> (merge_frames school staff_data, evs @ evs'))))"

section \<open>The orchestrator\<close>





section \<open>A small page model for running the definitions\<close>

text \<open>
  To evaluate the extractor on concrete pages: an element with a name, attributes, text
  and children, and an engine whose selectors are element names, matching every
  descendant of that name in document order.
\<close>

datatype node = Node string "(string \<times> string) list" string "node list"

fun node_name :: "node \<Rightarrow> string" where
  "node_name (Node name attrs txt kids) = name"

fun node_attrs :: "node \<Rightarrow> (string \<times> string) list" where
  "node_attrs (Node name attrs txt kids) = attrs"

fun node_text :: "node \<Rightarrow> string" where
  "node_text (Node name attrs txt kids) = txt"

fun descendants :: "node \<Rightarrow> node list" where
  "descendants (Node name attrs txt kids) = concat (map (\<lambda>k. k # descendants k) kids)"

definition example_dom :: "node \<Rightarrow> node dom" where
  "example_dom page =
     \<lparr> parse_html = (\<lambda>html. page),
       selector_ok = (\<lambda>s. s \<noteq> []),
       css_select = (\<lambda>s n. filter (\<lambda>k. node_name k = s) (descendants n)),
       get_attr = (\<lambda>n a. map_of (node_attrs n) a),
       get_text = (\<lambda>n. py_strip (node_text n)) \<rparr>"

section \<open>Notions used to state the properties\<close>




text \<open>
  The e-mail rule in the words of the specification: "strip a \<^verbatim>\<open>mailto:\<close> prefix and trim
  whitespace". It is compared below with what line 163 computes.
\<close>

definition spec_email :: "string \<Rightarrow> string" where
  "spec_email href =
     py_strip (if prefix ''mailto:'' href then drop (length ''mailto:'') href else href)"



section \<open>Concrete inputs\<close>

text \<open>Networks: what a server answers to the request number \<open>attempt\<close>.\<close>

definition not_found :: network where
  "not_found url attempt = Response 404 ''Not Found''"




definition online :: network where
  "online url attempt = Response 200 ''<html>staff</html>''"

text \<open>A page with two tables, and table blocks that read it.\<close>

definition jane_row :: node where
  "jane_row =
     Node ''tr'' [] '''' [
       Node ''h3'' [] '' Jane Doe '' [],
       Node ''a'' [(''href'', ''mailto:jane@doe.edu'')] ''Email Jane'' [],
       Node ''img'' [(''src'', ''/img/jane.png'')] '''' []]"

definition title_row :: node where
  "title_row = Node ''tr'' [] '''' [Node ''h4'' [] ''Head Coach'' []]"

definition sam_row :: node where
  "sam_row =
     Node ''tr'' [] '''' [
       Node ''h3'' [] ''Sam Roe'' [],
       Node ''a'' [(''href'', ''mailto:mailto:sam@roe.edu'')] ''Sam'' []]"

definition staff_page :: node where
  "staff_page =
     Node ''html'' [] '''' [
       Node ''table'' [(''id'', ''coaches'')] '''' [jane_row, title_row],
       Node ''table'' [(''id'', ''support'')] '''' [sam_row]]"

definition coaches_table :: table_config where
  "coaches_table =
     \<lparr> table_container_selector = Some ''table'',
       wrapper_index = None,
       row_selector = Some ''tr'',
       field_selectors =
         Some [(''Name'', Selector ''h3''), (''email'', Selector ''a''),
               (''image_url'', Descriptor (Some ''img'') (Some ''src''))] \<rparr>"

definition missing_table :: table_config where
  "missing_table = coaches_table \<lparr> wrapper_index := Some 2 \<rparr>"

definition last_table :: table_config where
  "last_table = coaches_table \<lparr> wrapper_index := Some (- 1) \<rparr>"

definition colliding_table :: table_config where
  "colliding_table =
     coaches_table \<lparr> field_selectors :=
       Some [(''Name'', Selector ''h3''), (''name'', Selector ''h4'')] \<rparr>"


definition bare_site :: site_config where
  "bare_site = [(''url'', Str ''https://bare.edu/staff'')]"

definition custom_site :: site_config where
  "custom_site = [(''url'', Str ''https://custom.edu/staff''), (''handler'', Str ''custom'')]"




section \<open>The fetcher: client errors and retries\<close>



lemma attempt_request_client_error:
  "net url k = Response sc body \<Longrightarrow> 400 \<le> sc \<Longrightarrow> sc \<le> 499 \<Longrightarrow>
   attempt_request net url d k = (Some '''', [Get url, Print (PermanentError url sc)])"
  by (simp add: attempt_request_def raise_for_status_def)





text \<open>
  C2. When the first request to a non-empty URL is answered with a status from 400 to
  499 (and the loop runs at all: \<open>max_retries\<close> is at least 1), \<open>fetch_html\<close> returns the
  empty string and raises nothing; its effects are exactly one GET and the line about
  the permanent error: no second request and no sleep.
\<close>

theorem fetch_html_client_error_single_attempt:
  assumes "url \<noteq> []" and "0 < max_retries"
    and "net url 0 = Response sc body" and "400 \<le> sc" and "sc \<le> 499"
  shows "fetch_html net url max_retries delay_seconds =
           (Inr '''', [Get url, Print (PermanentError url sc)])"
  using assms
  by (simp add: fetch_html_def fetch_attempts.simps [of _ _ _ _ 0] attempt_request_client_error)

theorem fetch_html_client_error_single_attempt_witness:
  "''https://state.edu/staff'' \<noteq> [] \<and> (0::int) < 3 \<and>
   not_found ''https://state.edu/staff'' 0 = Response 404 ''Not Found'' \<and>
   fetch_html not_found ''https://state.edu/staff'' 3 5 =
     (Inr '''', [Get ''https://state.edu/staff'',
                 Print (PermanentError ''https://state.edu/staff'' 404)])"
  using fetch_html_client_error_single_attempt
          [of "''https://state.edu/staff''" 3 not_found 404 "''Not Found''" 5]
  by (simp add: not_found_def)




section \<open>The extractor: containers, rows and fields\<close>

lemma select_ok: "selector_ok lib s \<Longrightarrow> select lib s n = Inr (css_select lib s n)"
  by (simp add: select_def)

lemma select_one_miss:
  "selector_ok lib s \<Longrightarrow> css_select lib s row = [] \<Longrightarrow> select_one lib (Some s) row = Inr None"
  by (simp add: select_one_def select_ok)

lemma select_one_total:
  "selector_ok lib s \<Longrightarrow> \<exists>t. select_one lib (Some s) row = Inr t"
  by (simp add: select_one_def select_ok split: list.splits)

lemma field_value_miss:
  "select_one lib (selector_string fc) row = Inr None \<Longrightarrow> field_value lib row n fc = Inr None"
  by (simp add: field_value_def)

lemma field_value_total:
  assumes "selector_string fc = Some s" "selector_ok lib s"
  shows "\<exists>v. field_value lib row n fc = Inr v"
proof -
  from select_one_total [OF assms(2)] obtain t where "select_one lib (Some s) row = Inr t" ..
  with assms(1) show ?thesis
    by (cases t) (simp_all add: field_value_def)
qed



lemma scrape_fields_other:
  "scrape_fields lib row fs m = Inr m' \<Longrightarrow> k \<notin> py_lower ` fst ` set fs \<Longrightarrow>
   map_of m' k = map_of m k"
proof (induction fs arbitrary: m)
  case Nil
  then show ?case by simp
next
  case (Cons f fs)
  obtain n fc where f: "f = (n, fc)" by (cases f)
  from Cons.prems f obtain v where
    rest: "scrape_fields lib row fs (AList.update (py_lower n) v m) = Inr m'"
    by (auto split: sum.splits)
  from Cons.prems(2) f have "k \<notin> py_lower ` fst ` set fs" and "k \<noteq> py_lower n" by auto
  with Cons.IH [OF rest] show ?case
    by (simp add: update_conv')
qed

lemma scrape_fields_last:
  "scrape_fields lib row (pre @ (n, fc) # post) m = Inr m' \<Longrightarrow>
   py_lower n \<notin> py_lower ` fst ` set post \<Longrightarrow>
   field_value lib row n fc = Inr v \<Longrightarrow>
   map_of m' (py_lower n) = Some v"
proof (induction pre arbitrary: m)
  case Nil
  then have "scrape_fields lib row post (AList.update (py_lower n) v m) = Inr m'" by simp
  from scrape_fields_other [OF this Nil.prems(2)] show ?case
    by (simp add: update_conv')
next
  case (Cons f pre)
  obtain n' fc' where f: "f = (n', fc')" by (cases f)
  from Cons.prems(1) f obtain v' where
    "scrape_fields lib row (pre @ (n, fc) # post) (AList.update (py_lower n') v' m) = Inr m'"
    by (auto split: sum.splits)
  from Cons.IH [OF this Cons.prems(2,3)] show ?case .
qed

lemma scrape_fields_total:
  "\<forall>(n, fc) \<in> set fs. \<exists>s. selector_string fc = Some s \<and> selector_ok lib s \<Longrightarrow>
   \<exists>m'. scrape_fields lib row fs m = Inr m'"
proof (induction fs arbitrary: m)
  case Nil
  then show ?case by simp
next
  case (Cons f fs)
  obtain n fc where f: "f = (n, fc)" by (cases f)
  with Cons.prems obtain s where "selector_string fc = Some s" "selector_ok lib s" by auto
  from field_value_total [OF this] obtain v where "field_value lib row n fc = Inr v" ..
  moreover from Cons.prems have "\<forall>(n, fc) \<in> set fs. \<exists>s. selector_string fc = Some s \<and> selector_ok lib s"
    by simp
  from Cons.IH [OF this] obtain m' where
    "scrape_fields lib row fs (AList.update (py_lower n) v m) = Inr m'" by blast
  ultimately show ?case using f by simp
qed

lemma scrape_members_length:
  "scrape_members lib config rows = Inr recs \<Longrightarrow> length recs = length rows"
  by (induction rows arbitrary: recs) (auto split: option.splits sum.splits)

lemma scrape_members_nth:
  "scrape_members lib config rows = Inr recs \<Longrightarrow> field_selectors config = Some fs \<Longrightarrow>
   j < length rows \<Longrightarrow> scrape_fields lib (rows ! j) fs [] = Inr (recs ! j)"
proof (induction rows arbitrary: recs j)
  case Nil
  then show ?case by simp
next
  case (Cons row rows)
  from Cons.prems(1,2) obtain m ms where m: "scrape_fields lib row fs [] = Inr m"
    and ms: "scrape_members lib config rows = Inr ms" and recs: "recs = m # ms"
    by (auto split: sum.splits)
  show ?case
  proof (cases j)
    case 0
    with m recs show ?thesis by simp
  next
    case (Suc i)
    with Cons.prems(3) have "i < length rows" by simp
    from Cons.IH [OF ms Cons.prems(2) this] Suc recs show ?thesis by simp
  qed
qed


lemma scrape_members_total:
  assumes "field_selectors config = Some fs"
    and "\<forall>(n, fc) \<in> set fs. \<exists>s. selector_string fc = Some s \<and> selector_ok lib s"
  shows "\<exists>recs. scrape_members lib config rows = Inr recs"
proof (induction rows)
  case Nil
  show ?case by simp
next
  case (Cons row rows)
  then obtain recs where "scrape_members lib config rows = Inr recs" ..
  moreover from scrape_fields_total [OF assms(2)] obtain m where
    "scrape_fields lib row fs [] = Inr m" by blast
  ultimately show ?case using assms(1) by simp
qed

lemma scrape_generic_table_chosen:
  assumes "table_container_selector config = Some sel" and "selector_ok lib sel"
    and "css_select lib sel soup \<noteq> []"
    and "table_index config < int (length (css_select lib sel soup))"
    and "list_index (css_select lib sel soup) (table_index config) = Inr table"
  shows "scrape_generic_table lib soup config = (scrape_rows lib config table, [])"
  using assms by (simp add: scrape_generic_table_def select_ok)


text \<open>
  C4. When the container selector is present and compiles, and it matches nothing or
  the index is at least the number of matches, \<open>scrape_generic_table\<close> prints the line
  about the missing container and returns the empty list; nothing is raised. (This
  holds for every index, negative ones included, when there is no match.)
\<close>

theorem scrape_generic_table_container_missing:
  assumes "table_container_selector config = Some sel" and "selector_ok lib sel"
    and "css_select lib sel soup = [] \<or>
         int (length (css_select lib sel soup)) \<le> table_index config"
  shows "scrape_generic_table lib soup config =
           (Inr [], [Print (TableNotFound sel (table_index config))])"
  using assms by (auto simp: scrape_generic_table_def select_ok)

theorem scrape_generic_table_container_missing_witness:
  "table_container_selector missing_table = Some ''table'' \<and>
   selector_ok (example_dom staff_page) ''table'' \<and>
   length (css_select (example_dom staff_page) ''table'' staff_page) = 2 \<and>
   table_index missing_table = 2 \<and>
   scrape_generic_table (example_dom staff_page) staff_page missing_table =
     (Inr [], [Print (TableNotFound ''table'' 2)])"
proof -
  have a: "table_container_selector missing_table = Some ''table''"
    by (simp add: missing_table_def coaches_table_def)
  have b: "selector_ok (example_dom staff_page) ''table''"
    by (simp add: example_dom_def)
  have c: "length (css_select (example_dom staff_page) ''table'' staff_page) = 2"
    by code_simp
  have d: "table_index missing_table = 2"
    by (simp add: table_index_def missing_table_def)
  from c d have "css_select (example_dom staff_page) ''table'' staff_page = [] \<or>
      int (length (css_select (example_dom staff_page) ''table'' staff_page))
        \<le> table_index missing_table"
    by simp
  from scrape_generic_table_container_missing [OF a b this] a b c d
  show ?thesis by simp
qed

text \<open>
  C9. With a negative \<open>wrapper_index\<close> \<open>i\<close>, at least one matching container and
  \<open>- i\<close> at most the number of matches, the guard of line 123 does not fire: the
  container counted from the end of the match list is chosen (the last one for
  \<open>i = - 1\<close>) and extraction goes on with it, instead of returning the empty list with
  the line about a missing container.
\<close>

theorem scrape_generic_table_negative_index:
  assumes "table_container_selector config = Some sel" and "selector_ok lib sel"
    and "wrapper_index config = Some i" and "i < 0"
    and "css_select lib sel soup \<noteq> []"
    and "- i \<le> int (length (css_select lib sel soup))"
  shows "scrape_generic_table lib soup config =
           (scrape_rows lib config
              (css_select lib sel soup ! (length (css_select lib sel soup) - nat (- i))), []) \<and>
         (i = - 1 \<longrightarrow>
            scrape_generic_table lib soup config =
              (scrape_rows lib config (last (css_select lib sel soup)), [])) \<and>
         scrape_generic_table lib soup config \<noteq> (Inr [], [Print (TableNotFound sel i)])"
proof -
  let ?ts = "css_select lib sel soup"
  from assms have main: "scrape_generic_table lib soup config =
      (scrape_rows lib config (?ts ! (length ?ts - nat (- i))), [])"
    by (simp add: scrape_generic_table_def select_ok table_index_def list_index_def)
  moreover from assms(5) have "last ?ts = ?ts ! (length ?ts - nat 1)"
    by (simp add: last_conv_nth)
  ultimately show ?thesis by auto
qed

theorem scrape_generic_table_negative_index_witness:
  "wrapper_index last_table = Some (- 1) \<and>
   length (css_select (example_dom staff_page) ''table'' staff_page) = 2 \<and>
   scrape_generic_table (example_dom staff_page) staff_page last_table =
     (scrape_rows (example_dom staff_page) last_table
        (Node ''table'' [(''id'', ''support'')] '''' [sam_row]), []) \<and>
   scrape_rows (example_dom staff_page) last_table
        (Node ''table'' [(''id'', ''support'')] '''' [sam_row]) =
     Inr [[(''name'', Some ''Sam Roe''), (''email'', Some ''sam@roe.edu''),
           (''image_url'', None)]]"
proof -
  have a: "table_container_selector last_table = Some ''table''"
    by (simp add: last_table_def coaches_table_def)
  have b: "selector_ok (example_dom staff_page) ''table''"
    by (simp add: example_dom_def)
  have c: "wrapper_index last_table = Some (- 1)"
    by (simp add: last_table_def)
  have ts: "css_select (example_dom staff_page) ''table'' staff_page =
      [Node ''table'' [(''id'', ''coaches'')] '''' [jane_row, title_row],
       Node ''table'' [(''id'', ''support'')] '''' [sam_row]]"
    by code_simp
  have d: "css_select (example_dom staff_page) ''table'' staff_page \<noteq> []"
    by (simp add: ts)
  have e: "- (- 1) \<le> int (length (css_select (example_dom staff_page) ''table'' staff_page))"
    by (simp add: ts)
  have rows: "scrape_rows (example_dom staff_page) last_table
        (Node ''table'' [(''id'', ''support'')] '''' [sam_row]) =
     Inr [[(''name'', Some ''Sam Roe''), (''email'', Some ''sam@roe.edu''),
           (''image_url'', None)]]"
    by code_simp
  from scrape_generic_table_negative_index [OF a b c _ d e] c rows
  show ?thesis by (simp add: ts)
qed

text \<open>
  C10. In attribute mode (a descriptor whose attribute name is not empty) the value of a
  field is what \<^verbatim>\<open>tag.get\<close> returns for the first matching element: \<open>None\<close> when the
  element lacks the attribute. This holds for every field name, \<^verbatim>\<open>email\<close> included, and
  whatever \<^verbatim>\<open>href\<close> the element carries: the text and the e-mail rule are not consulted.
\<close>

theorem field_value_attribute_mode:
  assumes "attribute_name fc = Some a" and "a \<noteq> []"
    and "select_one lib (selector_string fc) row = Inr (Some tag)"
  shows "field_value lib row field_name fc = Inr (get_attr lib tag a) \<and>
         (get_attr lib tag a = None \<longrightarrow> field_value lib row field_name fc = Inr None)"
  using assms by (simp add: field_value_def)

theorem field_value_attribute_mode_witness:
  "attribute_name (Descriptor (Some ''a'') (Some ''title'')) = Some ''title'' \<and>
   select_one (example_dom staff_page) (selector_string (Descriptor (Some ''a'') (Some ''title'')))
     jane_row = Inr (Some (Node ''a'' [(''href'', ''mailto:jane@doe.edu'')] ''Email Jane'' [])) \<and>
   get_attr (example_dom staff_page)
     (Node ''a'' [(''href'', ''mailto:jane@doe.edu'')] ''Email Jane'' []) ''title'' = None \<and>
   get_attr (example_dom staff_page)
     (Node ''a'' [(''href'', ''mailto:jane@doe.edu'')] ''Email Jane'' []) ''href'' =
       Some ''mailto:jane@doe.edu'' \<and>
   field_value (example_dom staff_page) jane_row ''email''
     (Descriptor (Some ''a'') (Some ''title'')) = Inr None"
proof -
  have a: "attribute_name (Descriptor (Some ''a'') (Some ''title'')) = Some ''title''"
    by (simp add: attribute_name_def)
  have b: "''title'' \<noteq> []" by simp
  have c: "select_one (example_dom staff_page)
      (selector_string (Descriptor (Some ''a'') (Some ''title''))) jane_row =
      Inr (Some (Node ''a'' [(''href'', ''mailto:jane@doe.edu'')] ''Email Jane'' []))"
    by code_simp
  have d: "get_attr (example_dom staff_page)
     (Node ''a'' [(''href'', ''mailto:jane@doe.edu'')] ''Email Jane'' []) ''title'' = None"
    by code_simp
  have e: "get_attr (example_dom staff_page)
     (Node ''a'' [(''href'', ''mailto:jane@doe.edu'')] ''Email Jane'' []) ''href'' =
       Some ''mailto:jane@doe.edu''"
    by code_simp
  from field_value_attribute_mode [OF a b c, of "''email''"] a c d e
  show ?thesis by simp
qed

section \<open>The e-mail rule\<close>

lemma py_replace_absent:
  "old \<noteq> [] \<Longrightarrow> \<not> sublist old s \<Longrightarrow> py_replace old new s = s"
proof (induction s)
  case Nil
  then show ?case by simp
next
  case (Cons c cs)
  from Cons.prems(2) have "\<not> prefix old (c # cs)" and "\<not> sublist old cs"
    by (auto simp: sublist_Cons_right)
  with Cons show ?case by simp
qed

lemma py_replace_prefix:
  assumes "old \<noteq> []"
  shows "py_replace old new (old @ rest) = new @ py_replace old new rest"
proof -
  from assms obtain c cs where old: "old = c # cs" by (cases old) auto
  have "py_replace old new (c # (cs @ rest)) =
        new @ py_replace old new (drop (length old) (c # (cs @ rest)))"
    using assms by (simp add: old)
  then show ?thesis by (simp add: old)
qed

lemma py_replace_mailto:
  assumes "\<not> sublist ''mailto:'' (if prefix ''mailto:'' href then drop (length ''mailto:'') href else href)"
  shows "py_strip (py_replace ''mailto:'' '''' href) = spec_email href"
proof (cases "prefix ''mailto:'' href")
  case True
  then obtain rest where href: "href = ''mailto:'' @ rest" by (auto simp: prefix_def)
  with assms have "\<not> sublist ''mailto:'' rest" by simp
  then have "py_replace ''mailto:'' '''' rest = rest"
    by (intro py_replace_absent) simp_all
  moreover have "py_replace ''mailto:'' '''' (''mailto:'' @ rest) =
      '''' @ py_replace ''mailto:'' '''' rest"
    by (rule py_replace_prefix) simp
  ultimately have "py_replace ''mailto:'' '''' href = rest"
    by (simp only: href append_Nil)
  with href show ?thesis by (simp add: spec_email_def)
next
  case False
  with assms have "py_replace ''mailto:'' '''' href = href"
    by (intro py_replace_absent) simp_all
  with False show ?thesis by (simp add: spec_email_def)
qed

text \<open>
  C6, as stated, fails: line 163 removes every occurrence of \<^verbatim>\<open>mailto:\<close>, not only a
  prefix. The link \<^verbatim>\<open>mailto:mailto:sam@roe.edu\<close> gives \<^verbatim>\<open>sam@roe.edu\<close>, where stripping
  the prefix and trimming gives \<^verbatim>\<open>mailto:sam@roe.edu\<close>.
\<close>

theorem field_value_email_counterexample:
  "select_one (example_dom staff_page) (selector_string (Selector ''a'')) sam_row =
     Inr (Some (Node ''a'' [(''href'', ''mailto:mailto:sam@roe.edu'')] ''Sam'' [])) \<and>
   field_value (example_dom staff_page) sam_row ''email'' (Selector ''a'') =
     Inr (Some ''sam@roe.edu'') \<and>
   spec_email ''mailto:mailto:sam@roe.edu'' = ''mailto:sam@roe.edu'' \<and>
   field_value (example_dom staff_page) sam_row ''email'' (Selector ''a'') \<noteq>
     Inr (Some (spec_email ''mailto:mailto:sam@roe.edu''))"
  by code_simp

text \<open>
  C6, amended. For a field named \<^verbatim>\<open>email\<close> in text mode (no attribute name, or an
  empty one) whose first matching element has an \<^verbatim>\<open>href\<close>, the value is that \<^verbatim>\<open>href\<close>
  with every occurrence of \<^verbatim>\<open>mailto:\<close> removed and the result trimmed, not the
  element's text. Whenever \<^verbatim>\<open>mailto:\<close> does not occur in the \<^verbatim>\<open>href\<close> after its prefix,
  this is the \<^verbatim>\<open>href\<close> with the prefix stripped and trimmed.
\<close>

theorem field_value_email:
  assumes "attribute_name fc = None \<or> attribute_name fc = Some []"
    and "select_one lib (selector_string fc) row = Inr (Some tag)"
    and "get_attr lib tag ''href'' = Some href"
  shows "field_value lib row ''email'' fc =
           Inr (Some (py_strip (py_replace ''mailto:'' '''' href))) \<and>
         (\<not> sublist ''mailto:''
              (if prefix ''mailto:'' href then drop (length ''mailto:'') href else href) \<longrightarrow>
            field_value lib row ''email'' fc = Inr (Some (spec_email href)))"
proof -
  from assms have "field_value lib row ''email'' fc =
      Inr (Some (py_strip (py_replace ''mailto:'' '''' href)))"
    by (auto simp: field_value_def)
  then show ?thesis by (simp add: py_replace_mailto)
qed

theorem field_value_email_witness:
  "attribute_name (Selector ''a'') = None \<and>
   select_one (example_dom staff_page) (selector_string (Selector ''a'')) jane_row =
     Inr (Some (Node ''a'' [(''href'', ''mailto:jane@doe.edu'')] ''Email Jane'' [])) \<and>
   get_attr (example_dom staff_page)
     (Node ''a'' [(''href'', ''mailto:jane@doe.edu'')] ''Email Jane'' []) ''href'' =
       Some ''mailto:jane@doe.edu'' \<and>
   \<not> sublist ''mailto:'' ''jane@doe.edu'' \<and>
   spec_email ''mailto:jane@doe.edu'' = ''jane@doe.edu'' \<and>
   field_value (example_dom staff_page) jane_row ''email'' (Selector ''a'') =
     Inr (Some ''jane@doe.edu'')"
proof -
  have a: "attribute_name (Selector ''a'') = None \<or> attribute_name (Selector ''a'') = Some []"
    by (simp add: attribute_name_def)
  have b: "select_one (example_dom staff_page) (selector_string (Selector ''a'')) jane_row =
     Inr (Some (Node ''a'' [(''href'', ''mailto:jane@doe.edu'')] ''Email Jane'' []))"
    by code_simp
  have c: "get_attr (example_dom staff_page)
     (Node ''a'' [(''href'', ''mailto:jane@doe.edu'')] ''Email Jane'' []) ''href'' =
       Some ''mailto:jane@doe.edu''"
    by code_simp
  have d: "\<not> sublist ''mailto:'' ''jane@doe.edu''"
    by (simp add: sublist_Cons_right)
  have e: "spec_email ''mailto:jane@doe.edu'' = ''jane@doe.edu''"
    by code_simp
  from d have "\<not> sublist ''mailto:''
      (if prefix ''mailto:'' ''mailto:jane@doe.edu''
       then drop (length ''mailto:'') ''mailto:jane@doe.edu'' else ''mailto:jane@doe.edu'')"
    by simp
  with field_value_email [OF a b c, THEN conjunct2] e
  have "field_value (example_dom staff_page) jane_row ''email'' (Selector ''a'') =
     Inr (Some ''jane@doe.edu'')"
    by simp
  with a b c d e show ?thesis by (simp add: attribute_name_def)
qed

section \<open>One record per row, one key per field\<close>

text \<open>
  C5, as stated, fails where two field names differ in case only: both are stored under
  the same lower-cased key, and the later field wins. In the second row of the first
  table the selector of \<^verbatim>\<open>Name\<close> matches nothing, yet the record holds the text found
  for \<^verbatim>\<open>name\<close> under that key.
\<close>

theorem scrape_generic_table_case_collision_counterexample:
  "field_selectors colliding_table =
     Some [(''Name'', Selector ''h3''), (''name'', Selector ''h4'')] \<and>
   select_one (example_dom staff_page) (selector_string (Selector ''h3'')) title_row = Inr None \<and>
   py_lower ''Name'' = ''name'' \<and>
   scrape_generic_table (example_dom staff_page) staff_page colliding_table =
     (Inr [[(''name'', None)], [(''name'', Some ''Head Coach'')]], [])"
  by code_simp

text \<open>
  C5, amended. Let the block have its three keys, let the selectors compile and let a
  container be chosen. Then extraction raises nothing and returns exactly one record per
  element matching \<open>row_selector\<close> in that container, in order, whatever the fields
  find; and in the record of a row, a field whose selector matches nothing in the row
  has the value \<open>None\<close> under its lower-cased name, provided no later field of
  \<open>field_selectors\<close> has the same lower-cased name.
\<close>

theorem scrape_generic_table_one_record_per_row:
  assumes "table_container_selector config = Some sel" and "selector_ok lib sel"
    and "css_select lib sel soup \<noteq> []"
    and "table_index config < int (length (css_select lib sel soup))"
    and "list_index (css_select lib sel soup) (table_index config) = Inr table"
    and "row_selector config = Some rs" and "selector_ok lib rs"
    and "field_selectors config = Some fs"
    and "\<forall>(n, fc) \<in> set fs. \<exists>s. selector_string fc = Some s \<and> selector_ok lib s"
  shows "\<exists>recs. scrape_generic_table lib soup config = (Inr recs, []) \<and>
           length recs = length (css_select lib rs table) \<and>
           (\<forall>j < length recs. \<forall>pre n fc post.
              fs = pre @ (n, fc) # post \<and>
              select_one lib (selector_string fc) (css_select lib rs table ! j) = Inr None \<and>
              py_lower n \<notin> py_lower ` fst ` set post \<longrightarrow>
              map_of (recs ! j) (py_lower n) = Some None)"
proof -
  let ?rows = "css_select lib rs table"
  from scrape_members_total [OF assms(8,9)] obtain recs where
    recs: "scrape_members lib config ?rows = Inr recs" by blast
  from scrape_generic_table_chosen [OF assms(1-5)] assms(6,7) recs
  have res: "scrape_generic_table lib soup config = (Inr recs, [])"
    by (simp add: scrape_rows_def select_ok)
  from scrape_members_length [OF recs] have len: "length recs = length ?rows" .
  have "map_of (recs ! j) (py_lower n) = Some None"
    if j: "j < length recs" and fs: "fs = pre @ (n, fc) # post"
      and miss: "select_one lib (selector_string fc) (?rows ! j) = Inr None"
      and later: "py_lower n \<notin> py_lower ` fst ` set post"
    for j pre n fc post
  proof -
    from j len have "j < length ?rows" by simp
    from scrape_members_nth [OF recs assms(8) this] fs
    have "scrape_fields lib (?rows ! j) (pre @ (n, fc) # post) [] = Inr (recs ! j)"
      by simp
    from scrape_fields_last [OF this later field_value_miss [OF miss]]
    show ?thesis .
  qed
  with res len show ?thesis by blast
qed

theorem scrape_generic_table_one_record_per_row_witness:
  "list_index (css_select (example_dom staff_page) ''table'' staff_page)
     (table_index coaches_table) =
     Inr (Node ''table'' [(''id'', ''coaches'')] '''' [jane_row, title_row]) \<and>
   css_select (example_dom staff_page) ''tr''
     (Node ''table'' [(''id'', ''coaches'')] '''' [jane_row, title_row]) = [jane_row, title_row] \<and>
   select_one (example_dom staff_page) (selector_string (Selector ''h3'')) title_row = Inr None \<and>
   (case scrape_generic_table (example_dom staff_page) staff_page coaches_table of
      (Inr recs, evs) \<Rightarrow>
        evs = [] \<and> length recs = 2 \<and> map_of (recs ! 1) ''name'' = Some None
    | (Inl e, evs) \<Rightarrow> False)"
proof -
  let ?lib = "example_dom staff_page"
  let ?table = "Node ''table'' [(''id'', ''coaches'')] '''' [jane_row, title_row]"
  let ?fs = "[(''Name'', Selector ''h3''), (''email'', Selector ''a''),
              (''image_url'', Descriptor (Some ''img'') (Some ''src''))]"
  have a: "table_container_selector coaches_table = Some ''table''"
    by (simp add: coaches_table_def)
  have b: "selector_ok ?lib ''table''" and g: "selector_ok ?lib ''tr''"
    by (simp_all add: example_dom_def)
  have ts: "css_select ?lib ''table'' staff_page =
      [?table, Node ''table'' [(''id'', ''support'')] '''' [sam_row]]"
    by code_simp
  have ti: "table_index coaches_table = 0"
    by (simp add: table_index_def coaches_table_def)
  have c: "css_select ?lib ''table'' staff_page \<noteq> []"
    and d: "table_index coaches_table < int (length (css_select ?lib ''table'' staff_page))"
    and e: "list_index (css_select ?lib ''table'' staff_page) (table_index coaches_table) =
              Inr ?table"
    by (simp_all add: ts ti list_index_def)
  have f: "row_selector coaches_table = Some ''tr''"
    and h: "field_selectors coaches_table = Some ?fs"
    by (simp_all add: coaches_table_def)
  have i: "\<forall>(n, fc) \<in> set ?fs. \<exists>s. selector_string fc = Some s \<and> selector_ok ?lib s"
    by (simp add: selector_string_def example_dom_def)
  have rows: "css_select ?lib ''tr'' ?table = [jane_row, title_row]"
    by code_simp
  have miss: "select_one ?lib (selector_string (Selector ''h3'')) title_row = Inr None"
    by code_simp
  have low: "py_lower ''Name'' = ''name''"
    by code_simp
  have later: "py_lower ''Name'' \<notin> py_lower ` fst ` set [(''email'', Selector ''a''),
              (''image_url'', Descriptor (Some ''img'') (Some ''src''))]"
    by code_simp
  from scrape_generic_table_one_record_per_row [OF a b c d e f g h i]
  obtain recs where all:
    "scrape_generic_table ?lib staff_page coaches_table = (Inr recs, []) \<and>
     length recs = length (css_select ?lib ''tr'' ?table) \<and>
     (\<forall>j < length recs. \<forall>pre n fc post.
        ?fs = pre @ (n, fc) # post \<and>
        select_one ?lib (selector_string fc) (css_select ?lib ''tr'' ?table ! j) = Inr None \<and>
        py_lower n \<notin> py_lower ` fst ` set post \<longrightarrow>
        map_of (recs ! j) (py_lower n) = Some None)" ..
  from all have res: "scrape_generic_table ?lib staff_page coaches_table = (Inr recs, [])"
    by (rule conjunct1)
  from all have "length recs = length (css_select ?lib ''tr'' ?table)"
    by (rule conjunct2 [THEN conjunct1])
  with rows have len2: "length recs = 2" by simp
  from all have absent: "\<forall>j < length recs. \<forall>pre n fc post.
        ?fs = pre @ (n, fc) # post \<and>
        select_one ?lib (selector_string fc) (css_select ?lib ''tr'' ?table ! j) = Inr None \<and>
        py_lower n \<notin> py_lower ` fst ` set post \<longrightarrow>
        map_of (recs ! j) (py_lower n) = Some None"
    by (rule conjunct2 [THEN conjunct2])
  have "map_of (recs ! 1) (py_lower ''Name'') = Some None"
  proof (rule absent [rule_format, of 1 "[]" "''Name''" "Selector ''h3''"
        "[(''email'', Selector ''a''),
          (''image_url'', Descriptor (Some ''img'') (Some ''src''))]"])
    show "1 < length recs" using len2 by simp
    have "css_select ?lib ''tr'' ?table ! 1 = title_row" by (simp add: rows)
    with miss later
    show "?fs = [] @ (''Name'', Selector ''h3'') # [(''email'', Selector ''a''),
              (''image_url'', Descriptor (Some ''img'') (Some ''src''))] \<and>
          select_one ?lib (selector_string (Selector ''h3''))
            (css_select ?lib ''tr'' ?table ! 1) = Inr None \<and>
          py_lower ''Name'' \<notin> py_lower ` fst ` set [(''email'', Selector ''a''),
              (''image_url'', Descriptor (Some ''img'') (Some ''src''))]"
      by (simp only: append_Nil simp_thms)
  qed
  with low have "map_of (recs ! 1) ''name'' = Some None" by simp
  with res len2 e rows miss show ?thesis by simp
qed



section \<open>A site without table blocks\<close>

lemma scrape_tables_no_block:
  "\<forall>(k, v) \<in> set config. \<not> endswith k ''_TABLE'' \<Longrightarrow>
   scrape_tables lib soup config = (Inr [], [])"
  by (induction config) auto

lemma parse_site_no_block:
  assumes "''handler'' \<notin> set (map fst config)"
    and "fetch_html net (config_url config) 3 5 = (Inr html, evs)" and "html \<noteq> []"
    and "\<forall>(k, v) \<in> set config. \<not> endswith k ''_TABLE''"
  shows "parse_site lib net school config = (Inl IndexError, evs)"
  using assms(1-3) scrape_tables_no_block [OF assms(4), of lib "parse_html lib html"]
  by (simp add: parse_site_def merge_frames_def)

text \<open>
  C1. The claim does not hold of the code. For every site dict without the key
  \<^verbatim>\<open>handler\<close>, whose page is fetched with non-empty content and which has no key ending
  in \<^verbatim>\<open>_TABLE\<close>, the list \<^verbatim>\<open>staff_data\<close> is empty and \<^verbatim>\<open>staff_data[0]\<close> raises
  \<^verbatim>\<open>IndexError\<close> (lemma \<open>parse_site_no_block\<close>). The sibling paths (custom handler,
  empty content) return \<^verbatim>\<open>pd.DataFrame()\<close>. Here the code is run on such a site.
\<close>

theorem parse_site_no_block_raises:
  "''handler'' \<notin> set (map fst bare_site) \<and>
   fetch_html online (config_url bare_site) 3 5 =
     (Inr ''<html>staff</html>'', [Get ''https://bare.edu/staff'']) \<and>
   filter (\<lambda>k. endswith k ''_TABLE'') (map fst bare_site) = [] \<and>
   parse_site (example_dom staff_page) online ''Bare'' bare_site =
     (Inl IndexError, [Get ''https://bare.edu/staff'']) \<and>
   parse_site (example_dom staff_page) online ''Custom'' custom_site =
     (Inr [], [Print (NeedHandler ''Custom'')]) \<and>
   parse_site (example_dom staff_page) not_found ''Bare'' bare_site =
     (Inr [], [Get ''https://bare.edu/staff'',
               Print (PermanentError ''https://bare.edu/staff'' 404)])"
proof -
  have a: "''handler'' \<notin> set (map fst bare_site)"
    by (simp add: bare_site_def)
  have b: "fetch_html online (config_url bare_site) 3 5 =
     (Inr ''<html>staff</html>'', [Get ''https://bare.edu/staff''])"
    by code_simp
  have c: "''<html>staff</html>'' \<noteq> []" by simp
  have d: "\<forall>(k, v) \<in> set bare_site. \<not> endswith k ''_TABLE''"
    by code_simp
  have e: "filter (\<lambda>k. endswith k ''_TABLE'') (map fst bare_site) = []"
    by code_simp
  have f: "parse_site (example_dom staff_page) online ''Custom'' custom_site =
     (Inr [], [Print (NeedHandler ''Custom'')])"
    by code_simp
  have g: "parse_site (example_dom staff_page) not_found ''Bare'' bare_site =
     (Inr [], [Get ''https://bare.edu/staff'',
               Print (PermanentError ''https://bare.edu/staff'' 404)])"
    by code_simp
  from parse_site_no_block [OF a b c d, of "example_dom staff_page" "''Bare''"] a b e f g
  show ?thesis by simp
qed

section \<open>The orchestrator: failures stay with their site\<close>






end
